theory Spec2Isabelle
  imports
    Main
    "HOL-Library.Sublist"
    "HOL-Library.Char_ord"
    "HOL-Library.List_Lexorder"
    "HOL-Library.Multiset"
begin

section \<open>Python values, dictionaries and exceptions\<close>

text \<open>
  The tools of \<^verbatim>\<open>main.py\<close> return \<^verbatim>\<open>dict[str, Any]\<close>. A dictionary is an
  association list in insertion order (the order \<^verbatim>\<open>keys()\<close> lists), and a value is
  one of the shapes the tools build or the driver hands back.
\<close>

datatype pyval =
    PNone
  | PInt int
  | PStr string
  | PList "pyval list"
  | PDict "(string \<times> pyval) list"

type_synonym pydict = "(string \<times> pyval) list"

text \<open>
  Exceptions are values. \<open>ValueError\<close> and \<open>RuntimeError\<close> are raised by
  \<^verbatim>\<open>database_lifespan\<close> itself, \<open>KeyError\<close> by a subscript on a row, and the
  driver's own failures are \<open>OperationalError\<close> or any \<open>OtherError\<close>.
\<close>

datatype exn =
    ValueError string
  | RuntimeError string
  | KeyError string
  | OperationalError string
  | OtherError string

text \<open>\<^verbatim>\<open>d[k]\<close> on a dictionary: the value, or \<^verbatim>\<open>KeyError\<close>.\<close>

definition getitem :: "pydict \<Rightarrow> string \<Rightarrow> exn + pyval" where
  "getitem d k = (case map_of d k of None \<Rightarrow> Inl (KeyError k) | Some v \<Rightarrow> Inr v)"

text \<open>\<^verbatim>\<open>list(d.keys())\<close>, as a Python list of strings.\<close>

definition keys :: "pydict \<Rightarrow> pyval list" where
  "keys d = map (\<lambda>kv. PStr (fst kv)) d"

section \<open>The string methods the server uses\<close>

text \<open>
  The query of \<^verbatim>\<open>execute_query\<close> is read character by character, so it is a
  \<open>pystr\<close>: the list of the Unicode code points of the Python \<^verbatim>\<open>str\<close>. \<open>str\<close>
  turns a literal of the program into its code points. Text that the program only
  copies and compares (names, messages, the connection string) stays a \<open>string\<close>.
\<close>

type_synonym pystr = "nat list"

definition str :: "string \<Rightarrow> pystr" where
  "str s = map of_char s"

definition sq :: char where
  "sq = CHR 0x27"

text \<open>
  \<^verbatim>\<open>str.strip()\<close> removes from both ends the code points Python counts as
  whitespace: U+0009 to U+000D, U+001C to U+0020, U+0085, U+00A0, U+1680, U+2000
  to U+200A, U+2028, U+2029, U+202F, U+205F and U+3000.
\<close>

definition isspace :: "nat \<Rightarrow> bool" where
  "isspace c =
     (c \<in> set [0x09, 0x0A, 0x0B, 0x0C, 0x0D, 0x1C, 0x1D, 0x1E, 0x1F, 0x20, 0x85, 0xA0,
                0x1680, 0x2000, 0x2001, 0x2002, 0x2003, 0x2004, 0x2005, 0x2006, 0x2007,
                0x2008, 0x2009, 0x200A, 0x2028, 0x2029, 0x202F, 0x205F, 0x3000])"

definition strip :: "pystr \<Rightarrow> pystr" where
  "strip s = rev (dropWhile isspace (rev (dropWhile isspace s)))"

text \<open>
  \<^verbatim>\<open>str.upper()\<close> maps each code point on its own to its full uppercase mapping,
  which may be several code points. On ASCII that is \<^verbatim>\<open>a\<close>..\<^verbatim>\<open>z\<close> to
  \<^verbatim>\<open>A\<close>..\<^verbatim>\<open>Z\<close> and nothing else. Beyond ASCII it is the table of the Unicode
  database, which is not part of the program: the table is the parameter \<open>U\<close>, and
  everything proved holds for every table.
\<close>

definition upper_char :: "(nat \<Rightarrow> pystr) \<Rightarrow> nat \<Rightarrow> pystr" where
  "upper_char U c =
     (if 0x61 \<le> c \<and> c \<le> 0x7A then [c - 0x20]
      else if c < 0x80 then [c]
      else U c)"

definition upper :: "(nat \<Rightarrow> pystr) \<Rightarrow> pystr \<Rightarrow> pystr" where
  "upper U s = concat (map (upper_char U) s)"

definition startswith :: "'a list \<Rightarrow> 'a list \<Rightarrow> bool" where
  "startswith s p = (take (length p) s = p)"

text \<open>
  \<^verbatim>\<open>s.replace(old, new)\<close>: every occurrence of \<open>old\<close>, scanning from the left and
  never overlapping, becomes \<open>new\<close>. With an empty \<open>old\<close> Python puts \<open>new\<close> before
  every character and at the end.
\<close>

function replace :: "string \<Rightarrow> string \<Rightarrow> string \<Rightarrow> string" where
  "replace old new [] = (if old = [] then new else [])"
| "replace old new (c # cs) =
     (if old = [] then new @ c # replace old new cs
      else if startswith (c # cs) old
        then new @ replace old new (drop (length old) (c # cs))
        else c # replace old new cs)"
  by pat_completeness auto
termination
  by (relation "measure (\<lambda>(old, new, s). length s)") auto

section \<open>The database connection\<close>

text \<open>
  What \<^verbatim>\<open>cursor.execute\<close> is given: a plain \<^verbatim>\<open>str\<close> or a \<^verbatim>\<open>psycopg.sql\<close>
  object, with the tuple of bound parameters when there is one. \<^verbatim>\<open>sql.SQL\<close>
  holds the text it was made from.
\<close>

datatype composable =
    SQL pystr
  | Identifier string
  | Composed "composable list"

datatype query = Str string | Composable composable

type_synonym statement = "query \<times> string list option"

text \<open>
  The connection of \<^verbatim>\<open>DatabaseContext\<close>. The PostgreSQL server is outside the
  program: \<open>server\<close> is its answer to a statement in a state \<open>world\<close> of its own
  (the rows of the result set, decoded by \<^verbatim>\<open>dict_row\<close>, or the exception the driver
  raises) together with its next state. \<open>sent\<close> records every statement the program
  has passed to \<^verbatim>\<open>cursor.execute\<close>, oldest first.
\<close>

record 'w connection =
  server :: "'w \<Rightarrow> statement \<Rightarrow> (exn + pydict list) \<times> 'w"
  world :: 'w
  sent :: "statement list"

record 'w DatabaseContext =
  conn :: "'w connection"

text \<open>
  \<^verbatim>\<open>async with db.cursor() as cur: await cur.execute(q, ps); rows = await cur.fetchall()\<close>
\<close>

definition execute_fetchall ::
  "'w connection \<Rightarrow> query \<Rightarrow> string list option \<Rightarrow> (exn + pydict list) \<times> 'w connection" where
  "execute_fetchall db q ps =
     (case server db (world db) (q, ps) of
        (r, w') \<Rightarrow> (r, db\<lparr>world := w', sent := sent db @ [(q, ps)]\<rparr>))"

text \<open>The same with \<^verbatim>\<open>cur.fetchone()\<close>: the first row, or \<^verbatim>\<open>None\<close>.\<close>

definition execute_fetchone ::
  "'w connection \<Rightarrow> query \<Rightarrow> string list option \<Rightarrow> (exn + pydict option) \<times> 'w connection" where
  "execute_fetchone db q ps =
     (case execute_fetchall db q ps of
        (Inl e, db') \<Rightarrow> (Inl e, db')
      | (Inr [], db') \<Rightarrow> (Inr None, db')
      | (Inr (r # rs), db') \<Rightarrow> (Inr (Some r), db'))"

section \<open>Connection setup: \<^verbatim>\<open>database_lifespan\<close>\<close>

definition getenv :: "(string \<rightharpoonup> string) \<Rightarrow> string \<Rightarrow> string option" where
  "getenv environ key = environ key"

definition getenv_default :: "(string \<rightharpoonup> string) \<Rightarrow> string \<Rightarrow> string \<Rightarrow> string" where
  "getenv_default environ key dflt = (case environ key of None \<Rightarrow> dflt | Some v \<Rightarrow> v)"

text \<open>
  \<^verbatim>\<open>psycopg.AsyncConnection.connect(database_url, ...)\<close> inside the \<^verbatim>\<open>try\<close>:
  the driver's exception is logged and raised again, and a \<^verbatim>\<open>None\<close> connection is
  a \<^verbatim>\<open>RuntimeError\<close>. The second component is the list of targets a connection was
  attempted to.
\<close>

definition try_connect ::
  "(string \<Rightarrow> exn + 'w connection option) \<Rightarrow> string
     \<Rightarrow> (exn + 'w DatabaseContext) \<times> string list" where
  "try_connect connect database_url =
     (case connect database_url of
        Inl e \<Rightarrow> (Inl e, [database_url])
      | Inr None \<Rightarrow>
          (Inl (RuntimeError ''Failed to establish database connection''), [database_url])
      | Inr (Some c) \<Rightarrow> (Inr \<lparr>conn = c\<rparr>, [database_url]))"

text \<open>
  \<^verbatim>\<open>database_lifespan\<close> up to its \<^verbatim>\<open>yield\<close>: the environment is a map from
  variable names to values, \<open>connect\<close> is the driver's connect call (the network),
  and the result is the context handed to the server or the exception raised,
  with the connection attempts made. Logging is left out; closing the connection
  after the \<^verbatim>\<open>yield\<close> is not part of the setup.
\<close>

definition database_lifespan ::
  "(string \<rightharpoonup> string) \<Rightarrow> (string \<Rightarrow> exn + 'w connection option)
     \<Rightarrow> (exn + 'w DatabaseContext) \<times> string list" where
  "database_lifespan environ connect =
     (case getenv environ ''DATABASE_URL'' of
        Some (u # us) \<Rightarrow>
          try_connect connect
            (replace ''postgresql+psycopg://'' ''postgresql://'' (u # us))
      | _ \<Rightarrow>
          (let db_host = getenv_default environ ''DATABASE_HOST'' ''localhost'';
               db_user = getenv_default environ ''DATABASE_USER'' ''postgres'';
               db_password = getenv_default environ ''DATABASE_PASSWORD'' '''';
               db_port = getenv_default environ ''DATABASE_PORT'' ''5432'';
               db_name = getenv_default environ ''DATABASE_NAME'' ''postgres''
           in if db_password = []
              then (Inl (ValueError
                     ''DATABASE_PASSWORD is required. Set DATABASE_PASSWORD or DATABASE_URL in .env file''),
                    [])
              else try_connect connect
                     (''postgresql://'' @ db_user @ '':'' @ db_password @ ''@'' @ db_host
                        @ '':'' @ db_port @ ''/'' @ db_name)))"

section \<open>The tools\<close>

subsection \<open>\<^verbatim>\<open>list_tables\<close>\<close>

definition list_tables_query :: string where
  "list_tables_query =
     ''\<newline>        SELECT table_name, table_type\<newline>        FROM information_schema.tables\<newline>        WHERE table_schema = 'public'\<newline>        ORDER BY table_name;\<newline>    ''"

definition list_tables :: "'w connection \<Rightarrow> (exn + pydict) \<times> 'w connection" where
  "list_tables db =
     (case execute_fetchall db (Str list_tables_query) None of
        (Inl e, db') \<Rightarrow> (Inl e, db')
      | (Inr tables, db') \<Rightarrow>
          (Inr [(''tables'', PList (map PDict tables)),
                (''count'', PInt (int (length tables)))], db'))"

text \<open>The \<^verbatim>\<open>table_name\<close> of each entry of a \<^verbatim>\<open>tables\<close> list.\<close>

fun names_of :: "pyval list \<Rightarrow> string list" where
  "names_of [] = []"
| "names_of (PDict d # vs) =
     (case map_of d ''table_name'' of Some (PStr n) \<Rightarrow> n # names_of vs | _ \<Rightarrow> names_of vs)"
| "names_of (v # vs) = names_of vs"

subsection \<open>\<^verbatim>\<open>get_table_schema\<close>\<close>

definition get_table_schema_query :: string where
  "get_table_schema_query =
     ''\<newline>        SELECT\<newline>            column_name,\<newline>            data_type,\<newline>            character_maximum_length,\<newline>            is_nullable,\<newline>            column_default\<newline>        FROM information_schema.columns\<newline>        WHERE table_schema = 'public' AND table_name = %s\<newline>        ORDER BY ordinal_position;\<newline>    ''"

definition get_table_schema :: "string \<Rightarrow> 'w connection \<Rightarrow> (exn + pydict) \<times> 'w connection" where
  "get_table_schema table_name db =
     (case execute_fetchall db (Str get_table_schema_query) (Some [table_name]) of
        (Inl e, db') \<Rightarrow> (Inl e, db')
      | (Inr columns, db') \<Rightarrow>
          if columns = []
          then (Inr [(''error'', PStr (''Table '' @ [sq] @ table_name @ [sq] @ '' not found'')),
                     (''table_name'', PStr table_name),
                     (''columns'', PList [])], db')
          else (Inr [(''table_name'', PStr table_name),
                     (''columns'', PList (map PDict columns)),
                     (''column_count'', PInt (int (length columns)))], db'))"

subsection \<open>\<^verbatim>\<open>execute_query\<close>\<close>

text \<open>
  \<^verbatim>\<open>any(query_upper.startswith(prefix) for prefix in ("SELECT", "WITH", "SHOW"))\<close>
  with \<^verbatim>\<open>query_upper = query.strip().upper()\<close>.
\<close>

definition read_only :: "(nat \<Rightarrow> pystr) \<Rightarrow> pystr \<Rightarrow> bool" where
  "read_only U query =
     (let query_upper = upper U (strip query)
      in list_ex (\<lambda>prefix. startswith query_upper prefix)
           [str ''SELECT'', str ''WITH'', str ''SHOW''])"

definition rejection :: pydict where
  "rejection =
     [(''error'', PStr ''Only SELECT, WITH, and SHOW queries are allowed''),
      (''rows'', PList []),
      (''row_count'', PInt 0)]"

definition execute_query ::
  "(nat \<Rightarrow> pystr) \<Rightarrow> pystr \<Rightarrow> 'w connection \<Rightarrow> (exn + pydict) \<times> 'w connection" where
  "execute_query U query db =
     (if \<not> read_only U query then (Inr rejection, db)
      else
        (case execute_fetchall db (Composable (SQL query)) None of
           (Inl e, db') \<Rightarrow> (Inl e, db')
         | (Inr rows, db') \<Rightarrow>
             (Inr [(''rows'', PList (map PDict rows)),
                   (''row_count'', PInt (int (length rows))),
                   (''columns'', PList (case rows of [] \<Rightarrow> [] | r # rs \<Rightarrow> keys r))], db')))"

subsection \<open>\<^verbatim>\<open>get_table_stats\<close>\<close>

text \<open>
  \<^verbatim>\<open>sql.SQL("SELECT COUNT(*) as count FROM {}").format(sql.Identifier(table_name))\<close>:
  the template with its one placeholder filled by the quoted identifier.
\<close>

definition count_query :: "string \<Rightarrow> composable" where
  "count_query table_name =
     Composed [SQL (str ''SELECT COUNT(*) as count FROM ''), Identifier table_name]"

definition size_query :: pystr where
  "size_query = str
     ''\<newline>                SELECT\<newline>                    pg_size_pretty(pg_total_relation_size(%s)) as total_size,\<newline>                    pg_size_pretty(pg_relation_size(%s)) as table_size,\<newline>                    pg_size_pretty(pg_indexes_size(%s)) as indexes_size\<newline>                ''"

text \<open>
  \<^verbatim>\<open>result[key] if result else dflt\<close>: \<^verbatim>\<open>None\<close> and the empty dictionary are
  both false.
\<close>

definition item_or :: "pydict option \<Rightarrow> string \<Rightarrow> pyval \<Rightarrow> exn + pyval" where
  "item_or result key dflt =
     (case result of
        None \<Rightarrow> Inr dflt
      | Some d \<Rightarrow> if d = [] then Inr dflt else getitem d key)"

definition get_table_stats :: "string \<Rightarrow> 'w connection \<Rightarrow> (exn + pydict) \<times> 'w connection" where
  "get_table_stats table_name db =
     (case execute_fetchone db (Composable (count_query table_name)) None of
        (Inl e, db1) \<Rightarrow> (Inl e, db1)
      | (Inr count_result, db1) \<Rightarrow>
     (case item_or count_result ''count'' (PInt 0) of
        Inl e \<Rightarrow> (Inl e, db1)
      | Inr row_count \<Rightarrow>
     (case execute_fetchone db1 (Composable (SQL size_query))
             (Some [table_name, table_name, table_name]) of
        (Inl e, db2) \<Rightarrow> (Inl e, db2)
      | (Inr size_result, db2) \<Rightarrow>
     (case item_or size_result ''total_size'' (PStr ''Unknown'') of
        Inl e \<Rightarrow> (Inl e, db2)
      | Inr total_size \<Rightarrow>
     (case item_or size_result ''table_size'' (PStr ''Unknown'') of
        Inl e \<Rightarrow> (Inl e, db2)
      | Inr table_size \<Rightarrow>
     (case item_or size_result ''indexes_size'' (PStr ''Unknown'') of
        Inl e \<Rightarrow> (Inl e, db2)
      | Inr indexes_size \<Rightarrow>
          (Inr [(''table_name'', PStr table_name),
                (''row_count'', row_count),
                (''total_size'', total_size),
                (''table_size'', table_size),
                (''indexes_size'', indexes_size)], db2)))))))"

section \<open>The catalog behind \<^verbatim>\<open>list_tables\<close>\<close>

text \<open>
  The ordering of \<^verbatim>\<open>list_tables\<close> is asked of the database in the text of its
  statement. To state it, the database is a catalog of tables, and its server
  reads the statement it is sent: a \<^verbatim>\<open>SELECT\<close> of columns from
  \<^verbatim>\<open>information_schema.tables\<close>, with an optional \<^verbatim>\<open>WHERE column = 'literal'\<close>,
  an optional \<^verbatim>\<open>ORDER BY column\<close> (ascending unless \<^verbatim>\<open>DESC\<close> follows) and an
  optional closing semicolon. It answers with the rows the statement selects, in
  catalog order when no ordering is asked for, and raises on any other statement.
  Names are compared character by character, as the catalog's identifier columns
  are.
\<close>

record catalog_table =
  tab_schema :: string
  tab_name :: string
  tab_type :: string

datatype direction = Ascending | Descending

record select_statement =
  sel_columns :: "string list"
  sel_relation :: string
  sel_where :: "(string \<times> string) option"
  sel_order :: "(string \<times> direction) option"

definition sql_space :: "char \<Rightarrow> bool" where
  "sql_space c = (c \<in> set [CHR 0x09, CHR 0x0A, CHR 0x0C, CHR 0x0D, CHR 0x20])"

definition spaced :: "char \<Rightarrow> string" where
  "spaced c = (if c \<in> set '',;='' then [CHR 0x20, c, CHR 0x20] else [c])"

fun split_words :: "string \<Rightarrow> string \<Rightarrow> string list" where
  "split_words word [] = (if word = [] then [] else [word])"
| "split_words word (c # cs) =
     (if sql_space c
      then (if word = [] then split_words [] cs else word # split_words [] cs)
      else split_words (word @ [c]) cs)"

definition tokens :: "string \<Rightarrow> string list" where
  "tokens s = split_words [] (concat (map spaced s))"

fun parse_columns :: "string list \<Rightarrow> (string list \<times> string list) option" where
  "parse_columns (c # sep # rest) =
     (if sep = ''FROM'' then Some ([c], rest)
      else if sep = '','' then
        (case parse_columns rest of
           None \<Rightarrow> None
         | Some (cs, rest') \<Rightarrow> Some (c # cs, rest'))
      else None)"
| "parse_columns ts = None"

definition quoted :: "string \<Rightarrow> string option" where
  "quoted w =
     (if 2 \<le> length w \<and> hd w = sq \<and> last w = sq then Some (butlast (tl w)) else None)"

fun parse_where :: "string list \<Rightarrow> ((string \<times> string) option \<times> string list) option" where
  "parse_where [] = Some (None, [])"
| "parse_where (kw # ts) =
     (if kw = ''WHERE'' then
        (case ts of
           col # eq # lit # rest \<Rightarrow>
             (if eq = ''='' then
                (case quoted lit of None \<Rightarrow> None | Some v \<Rightarrow> Some (Some (col, v), rest))
              else None)
         | _ \<Rightarrow> None)
      else Some (None, kw # ts))"

fun parse_order :: "string list \<Rightarrow> ((string \<times> direction) option \<times> string list) option" where
  "parse_order [] = Some (None, [])"
| "parse_order (kw # ts) =
     (if kw = ''ORDER'' then
        (case ts of
           kw2 # col # rest \<Rightarrow>
             (if kw2 = ''BY'' then
                (case rest of
                   [] \<Rightarrow> Some (Some (col, Ascending), [])
                 | d # rest' \<Rightarrow>
                     if d = ''DESC'' then Some (Some (col, Descending), rest')
                     else if d = ''ASC'' then Some (Some (col, Ascending), rest')
                     else Some (Some (col, Ascending), d # rest'))
              else None)
         | _ \<Rightarrow> None)
      else Some (None, kw # ts))"

definition parse_select :: "string list \<Rightarrow> select_statement option" where
  "parse_select ts =
     (case ts of
        [] \<Rightarrow> None
      | kw # ts1 \<Rightarrow>
          if kw \<noteq> ''SELECT'' then None
          else
            (case parse_columns ts1 of
               None \<Rightarrow> None
             | Some (cols, ts2) \<Rightarrow>
            (case ts2 of
               [] \<Rightarrow> None
             | rel # ts3 \<Rightarrow>
            (case parse_where ts3 of
               None \<Rightarrow> None
             | Some (cond, ts4) \<Rightarrow>
            (case parse_order ts4 of
               None \<Rightarrow> None
             | Some (ord, ts5) \<Rightarrow>
                 if ts5 = [] \<or> ts5 = ['';'']
                 then Some \<lparr>sel_columns = cols, sel_relation = rel,
                            sel_where = cond, sel_order = ord\<rparr>
                 else None)))))"

definition known_column :: "string \<Rightarrow> bool" where
  "known_column c = (c \<in> set [''table_schema'', ''table_name'', ''table_type''])"

definition column_value :: "string \<Rightarrow> catalog_table \<Rightarrow> string" where
  "column_value c t =
     (if c = ''table_schema'' then tab_schema t
      else if c = ''table_name'' then tab_name t
      else tab_type t)"

definition run_select :: "catalog_table list \<Rightarrow> select_statement \<Rightarrow> exn + pydict list" where
  "run_select catalog s =
     (if sel_relation s \<noteq> ''information_schema.tables''
      then Inl (OtherError ''relation does not exist'')
      else if \<not> list_all known_column
                 (sel_columns s
                    @ (case sel_where s of None \<Rightarrow> [] | Some (c, v) \<Rightarrow> [c])
                    @ (case sel_order s of None \<Rightarrow> [] | Some (c, d) \<Rightarrow> [c]))
      then Inl (OtherError ''column does not exist'')
      else
        (let kept = (case sel_where s of
                       None \<Rightarrow> catalog
                     | Some (c, v) \<Rightarrow> filter (\<lambda>t. column_value c t = v) catalog);
             ordered = (case sel_order s of
                          None \<Rightarrow> kept
                        | Some (c, Ascending) \<Rightarrow> sort_key (column_value c) kept
                        | Some (c, Descending) \<Rightarrow> rev (sort_key (column_value c) kept))
         in Inr (map (\<lambda>t. map (\<lambda>c. (c, PStr (column_value c t))) (sel_columns s)) ordered)))"

definition catalog_server ::
  "catalog_table list \<Rightarrow> statement \<Rightarrow> (exn + pydict list) \<times> catalog_table list" where
  "catalog_server catalog st =
     (case st of
        (Str sql, None) \<Rightarrow>
          (case parse_select (tokens sql) of
             None \<Rightarrow> (Inl (OtherError ''syntax error''), catalog)
           | Some s \<Rightarrow> (run_select catalog s, catalog))
      | _ \<Rightarrow> (Inl (OtherError ''statement not supported''), catalog))"

text \<open>
  The rows the statement of \<^verbatim>\<open>list_tables\<close> selects: the tables of the
  \<^verbatim>\<open>public\<close> schema, ordered by name, each with its name and type.
\<close>

definition table_row :: "catalog_table \<Rightarrow> pydict" where
  "table_row t = [(''table_name'', PStr (tab_name t)), (''table_type'', PStr (tab_type t))]"

definition select_tables :: "catalog_table list \<Rightarrow> pydict list" where
  "select_tables catalog =
     map table_row (sort_key tab_name (filter (\<lambda>t. tab_schema t = ''public'') catalog))"

section \<open>Notions of the specification and concrete databases\<close>

text \<open>
  The leading token of a query in the specification's sense: the first
  whitespace-delimited word of the trimmed text.
\<close>

definition leading_token :: "pystr \<Rightarrow> pystr" where
  "leading_token query = takeWhile (\<lambda>c. \<not> isspace c) (strip query)"

text \<open>
  The password a connection URI carries, in the specification's sense: the text
  after the first colon of the \<^verbatim>\<open>user:password@\<close> part of its authority.
\<close>

definition url_password :: "string \<Rightarrow> string option" where
  "url_password url =
     (let rest = drop 3 (dropWhile (\<lambda>c. c \<noteq> CHR '':'') url);
          authority = takeWhile (\<lambda>c. c \<noteq> CHR ''/'' \<and> c \<noteq> CHR ''?'') rest;
          userinfo = takeWhile (\<lambda>c. c \<noteq> CHR ''@'') authority
      in if CHR ''@'' \<in> set authority \<and> CHR '':'' \<in> set userinfo
         then Some (drop 1 (dropWhile (\<lambda>c. c \<noteq> CHR '':'') userinfo))
         else None)"

definition password_resolvable :: "(string \<rightharpoonup> string) \<Rightarrow> bool" where
  "password_resolvable environ =
     ((case getenv environ ''DATABASE_URL'' of
         None \<Rightarrow> False
       | Some url \<Rightarrow> url_password url \<noteq> None)
      \<or> getenv_default environ ''DATABASE_PASSWORD'' [] \<noteq> [])"

text \<open>
  An uppercase table for concrete queries. It holds three entries of Unicode's
  (U+00DF to \<^verbatim>\<open>SS\<close>, U+0131 to \<^verbatim>\<open>I\<close>, U+017F to \<^verbatim>\<open>S\<close>) and leaves
  every other code point as it is; ASCII text never consults it.
\<close>

definition sample_table :: "nat \<Rightarrow> pystr" where
  "sample_table c =
     (if c = 0xDF then str ''SS''
      else if c = 0x131 then str ''I''
      else if c = 0x17F then str ''S''
      else [c])"

text \<open>
  A server that gives the same answer to every statement, a connection to it on
  which nothing has been sent yet, and a \<^verbatim>\<open>connect\<close> that reaches it.
\<close>

definition constant_server :: "(exn + pydict list) \<Rightarrow> unit \<Rightarrow> statement \<Rightarrow> (exn + pydict list) \<times> unit" where
  "constant_server answer w st = (answer, w)"

definition answering :: "(exn + pydict list) \<Rightarrow> unit connection" where
  "answering answer = \<lparr>server = constant_server answer, world = (), sent = []\<rparr>"

definition reachable :: "string \<Rightarrow> exn + unit connection option" where
  "reachable database_url = Inr (Some (answering (Inr [])))"

text \<open>
  A connection to the server of a catalog, and a catalog with two tables in the
  public schema and one outside it.
\<close>

definition catalog_connection :: "catalog_table list \<Rightarrow> catalog_table list connection" where
  "catalog_connection catalog = \<lparr>server = catalog_server, world = catalog, sent = []\<rparr>"

definition example_catalog :: "catalog_table list" where
  "example_catalog =
     [\<lparr>tab_schema = ''public'', tab_name = ''staff'', tab_type = ''BASE TABLE''\<rparr>,
      \<lparr>tab_schema = ''pg_catalog'', tab_name = ''pg_class'', tab_type = ''BASE TABLE''\<rparr>,
      \<lparr>tab_schema = ''public'', tab_name = ''projects'', tab_type = ''BASE TABLE''\<rparr>]"

section \<open>Auxiliary facts\<close>

lemma startswith_prefix: "startswith s p \<longleftrightarrow> prefix p s"
  unfolding startswith_def
  by (metis append_eq_conv_conj prefix_def append_take_drop_id)

lemma read_only_iff:
  "read_only U q \<longleftrightarrow>
     prefix (str ''SELECT'') (upper U (strip q)) \<or> prefix (str ''WITH'') (upper U (strip q))
       \<or> prefix (str ''SHOW'') (upper U (strip q))"
  by (simp add: read_only_def startswith_prefix Let_def)

text \<open>
  An accepted query is run on the server: the connection afterwards and the
  result are those of executing the caller's text as the statement.
\<close>

lemma execute_query_accepted:
  assumes "read_only U q"
    and "server db (world db) (Composable (SQL q), None) = (r, w')"
  shows "execute_query U q db =
           ((case r of
               Inl e \<Rightarrow> Inl e
             | Inr rows \<Rightarrow>
                 Inr [(''rows'', PList (map PDict rows)),
                      (''row_count'', PInt (int (length rows))),
                      (''columns'', PList (case rows of [] \<Rightarrow> [] | r # rs \<Rightarrow> keys r))]),
            db\<lparr>world := w', sent := sent db @ [(Composable (SQL q), None)]\<rparr>)"
  using assms by (simp add: execute_query_def execute_fetchall_def split: sum.splits)


text \<open>
  Queries that begin with a no-break space or with the long s are accepted, as
  Python strips the one and uppercases the other to \<^verbatim>\<open>S\<close>.
\<close>

lemma read_only_after_no_break_space: "read_only U ([0xA0] @ str ''SELECT 1'')"
  by (simp add: read_only_def str_def strip_def isspace_def upper_def upper_char_def
      startswith_def)

lemma read_only_long_s: "U 0x17F = str ''S'' \<Longrightarrow> read_only U ([0x17F] @ str ''elect 1'')"
  by (simp add: read_only_def str_def strip_def isspace_def upper_def upper_char_def
      startswith_def)

text \<open>
  \<^verbatim>\<open>replace\<close> leaves a string without the old text alone, and rewrites an
  occurrence at the very start.
\<close>

lemma replace_absent:
  "old \<noteq> [] \<Longrightarrow> \<not> sublist old s \<Longrightarrow> replace old new s = s"
proof (induction s)
  case Nil
  then show ?case by simp
next
  case (Cons c cs)
  from Cons.prems have "\<not> prefix old (c # cs)"
    using prefix_imp_sublist by blast
  moreover from Cons.prems have "\<not> sublist old cs"
    by (meson sublist_Cons_right)
  ultimately show ?case
    using Cons by (simp add: startswith_prefix)
qed

lemma replace_at_start:
  "old \<noteq> [] \<Longrightarrow> replace old new (old @ rest) = new @ replace old new rest"
  by (cases old) (simp_all add: startswith_def)

lemma names_of_table_rows: "names_of (map (PDict \<circ> table_row) ts) = map tab_name ts"
  by (induction ts) (simp_all add: table_row_def)

text \<open>How the catalog server reads and answers the statement of \<^verbatim>\<open>list_tables\<close>.\<close>

lemma tokens_list_tables_query:
  "tokens list_tables_query =
     [''SELECT'', ''table_name'', '','', ''table_type'', ''FROM'', ''information_schema.tables'',
      ''WHERE'', ''table_schema'', ''='', [sq] @ ''public'' @ [sq], ''ORDER'', ''BY'',
      ''table_name'', '';'']"
  by (simp add: tokens_def list_tables_query_def spaced_def sql_space_def sq_def)

lemma parse_list_tables_query:
  "parse_select (tokens list_tables_query) =
     Some \<lparr>sel_columns = [''table_name'', ''table_type''],
           sel_relation = ''information_schema.tables'',
           sel_where = Some (''table_schema'', ''public''),
           sel_order = Some (''table_name'', Ascending)\<rparr>"
  by (simp add: tokens_list_tables_query parse_select_def quoted_def sq_def)

lemma column_value_table_name: "column_value ''table_name'' = tab_name"
  by (rule ext) (simp add: column_value_def)

lemma catalog_server_list_tables:
  "catalog_server catalog (Str list_tables_query, None) = (Inr (select_tables catalog), catalog)"
  by (simp add: catalog_server_def parse_list_tables_query run_select_def known_column_def
      column_value_table_name select_tables_def)
    (simp add: column_value_def table_row_def)

lemma select_tables_example:
  "select_tables example_catalog
     = [[(''table_name'', PStr ''projects''), (''table_type'', PStr ''BASE TABLE'')],
        [(''table_name'', PStr ''staff''), (''table_type'', PStr ''BASE TABLE'')]]"
  by (simp add: select_tables_def example_catalog_def table_row_def)

text \<open>
  The connection target \<^verbatim>\<open>database_lifespan\<close> resolves from a supplied
  \<^verbatim>\<open>DATABASE_URL\<close>: with the decoration at the start and nowhere else the
  canonical scheme takes its place and the rest stays; without the decoration the
  string is used as it is.
\<close>

lemma lifespan_supplied:
  assumes "getenv environ ''DATABASE_URL'' = Some url" and "url \<noteq> []"
  shows "database_lifespan environ connect
           = try_connect connect (replace ''postgresql+psycopg://'' ''postgresql://'' url)"
  using assms by (cases url) (simp_all add: database_lifespan_def del: replace.simps)

lemma snd_try_connect: "snd (try_connect connect url) = [url]"
  by (simp add: try_connect_def split: sum.splits option.splits)

lemma lifespan_strips_leading_decoration:
  assumes "getenv environ ''DATABASE_URL'' = Some (''postgresql+psycopg://'' @ rest)"
    and "\<not> sublist ''postgresql+psycopg://'' rest"
  shows "snd (database_lifespan environ connect) = [''postgresql://'' @ rest]"
proof -
  have "replace ''postgresql+psycopg://'' ''postgresql://'' (''postgresql+psycopg://'' @ rest)
          = ''postgresql://'' @ replace ''postgresql+psycopg://'' ''postgresql://'' rest"
    by (rule replace_at_start) simp
  also have "replace ''postgresql+psycopg://'' ''postgresql://'' rest = rest"
    using assms(2) by (intro replace_absent) simp_all
  finally have r:
    "replace ''postgresql+psycopg://'' ''postgresql://'' (''postgresql+psycopg://'' @ rest)
       = ''postgresql://'' @ rest" .
  have "''postgresql+psycopg://'' @ rest \<noteq> []"
    by simp
  from lifespan_supplied [OF assms(1) this, of connect] show ?thesis
    by (simp only: r snd_try_connect)
qed

lemma lifespan_keeps_plain_url:
  assumes "getenv environ ''DATABASE_URL'' = Some url" and "url \<noteq> []"
    and "\<not> sublist ''postgresql+psycopg://'' url"
  shows "snd (database_lifespan environ connect) = [url]"
proof -
  have "replace ''postgresql+psycopg://'' ''postgresql://'' url = url"
    using assms(3) by (intro replace_absent) simp_all
  then show ?thesis
    using lifespan_supplied [OF assms(1,2), of connect] by (simp only: snd_try_connect)
qed

section \<open>The query validator of \<^verbatim>\<open>execute_query\<close>\<close>

text \<open>
  C1, as stated, fails: the query \<^verbatim>\<open>SHOWER\<close> has the leading token
  \<^verbatim>\<open>SHOWER\<close>, which is none of the three keywords, and yet \<^verbatim>\<open>execute_query\<close>
  passes it to the database and raises what the database raises.
\<close>

theorem execute_query_leading_token_counterexample:
  "upper sample_table (leading_token (str ''SHOWER''))
     \<notin> {str ''SELECT'', str ''WITH'', str ''SHOW''}
   \<and> execute_query sample_table (str ''SHOWER'') (answering (Inl (OtherError ''syntax error'')))
       = (Inl (OtherError ''syntax error''),
          (answering (Inl (OtherError ''syntax error'')))
            \<lparr>sent := [(Composable (SQL (str ''SHOWER'')), None)]\<rparr>)"
  by (simp add: leading_token_def str_def strip_def isspace_def upper_def upper_char_def
      execute_query_def read_only_def startswith_def execute_fetchall_def answering_def
      constant_server_def)

text \<open>
  C1, amended: for every query whose trimmed, uppercased text does not begin with
  the characters \<^verbatim>\<open>SELECT\<close>, \<^verbatim>\<open>WITH\<close> or \<^verbatim>\<open>SHOW\<close>, \<^verbatim>\<open>execute_query\<close>
  returns the rejection envelope \<^verbatim>\<open>{error, rows: [], row_count: 0}\<close> as a normal
  result and leaves the connection untouched: no statement is sent.
\<close>

theorem execute_query_rejects:
  "\<not> (prefix (str ''SELECT'') (upper U (strip q)) \<or> prefix (str ''WITH'') (upper U (strip q))
       \<or> prefix (str ''SHOW'') (upper U (strip q)))
   \<Longrightarrow> execute_query U q db = (Inr rejection, db)"
  by (simp add: execute_query_def read_only_iff)

text \<open>C1, witness: \<^verbatim>\<open>DELETE FROM users\<close> is rejected without a database call.\<close>

theorem execute_query_rejects_witness:
  "\<not> (prefix (str ''SELECT'') (upper sample_table (strip (str ''DELETE FROM users'')))
        \<or> prefix (str ''WITH'') (upper sample_table (strip (str ''DELETE FROM users'')))
        \<or> prefix (str ''SHOW'') (upper sample_table (strip (str ''DELETE FROM users''))))
   \<and> execute_query sample_table (str ''DELETE FROM users'') (answering (Inr []))
       = (Inr rejection, answering (Inr []))"
proof -
  have h: "\<not> (prefix (str ''SELECT'') (upper sample_table (strip (str ''DELETE FROM users'')))
        \<or> prefix (str ''WITH'') (upper sample_table (strip (str ''DELETE FROM users'')))
        \<or> prefix (str ''SHOW'') (upper sample_table (strip (str ''DELETE FROM users''))))"
    by (simp add: str_def strip_def isspace_def upper_def upper_char_def)
  from execute_query_rejects [OF h, of "answering (Inr [])"] h show ?thesis by blast
qed



text \<open>
  C9: for every accepted query \<^verbatim>\<open>execute_query\<close> executes the caller's text as
  it is. The one statement passed to the database is \<^verbatim>\<open>sql.SQL\<close> of the query
  itself, with its casing and whitespace, no parameters and nothing appended; the
  server's state is the one that statement leaves, and the result is the server's
  own answer: its exception, or all of its rows in the envelope.
\<close>

theorem execute_query_sends_original:
  assumes "read_only U q"
    and "server db (world db) (Composable (SQL q), None) = (r, w')"
  shows "execute_query U q db =
           ((case r of
               Inl e \<Rightarrow> Inl e
             | Inr rows \<Rightarrow>
                 Inr [(''rows'', PList (map PDict rows)),
                      (''row_count'', PInt (int (length rows))),
                      (''columns'', PList (case rows of [] \<Rightarrow> [] | r # rs \<Rightarrow> keys r))]),
            db\<lparr>world := w', sent := sent db @ [(Composable (SQL q), None)]\<rparr>)"
  using assms by (rule execute_query_accepted)

text \<open>
  C9, witness: a mixed-case query with blanks on both sides reaches the server
  unchanged, and the server's row comes back.
\<close>

theorem execute_query_sends_original_witness:
  "read_only sample_table (str ''  Select * From Users  '')
   \<and> execute_query sample_table (str ''  Select * From Users  '')
         (answering (Inr [[(''id'', PInt 7)]]))
       = (Inr [(''rows'', PList [PDict [(''id'', PInt 7)]]),
               (''row_count'', PInt 1),
               (''columns'', PList [PStr ''id''])],
          (answering (Inr [[(''id'', PInt 7)]]))
            \<lparr>sent := [(Composable (SQL (str ''  Select * From Users  '')), None)]\<rparr>)"
proof -
  let ?db = "answering (Inr [[(''id'', PInt 7)]])"
  have h: "read_only sample_table (str ''  Select * From Users  '')"
    by (simp add: read_only_def str_def strip_def isspace_def upper_def upper_char_def
        startswith_def)
  have a: "server ?db (world ?db) (Composable (SQL (str ''  Select * From Users  '')), None)
             = (Inr [[(''id'', PInt 7)]], ())"
    by (simp add: answering_def constant_server_def)
  from execute_query_sends_original [OF h a] h show ?thesis
    by (simp add: answering_def keys_def)
qed

section \<open>The result envelope of \<^verbatim>\<open>execute_query\<close>\<close>

text \<open>
  C3, as stated, fails: when the database answers \<^verbatim>\<open>SELECT\<close> with one row of no
  columns, the row sequence is not empty and \<^verbatim>\<open>columns\<close> is.
\<close>

theorem execute_query_empty_columns_counterexample:
  "read_only sample_table (str ''SELECT'')
   \<and> fst (execute_query sample_table (str ''SELECT'') (answering (Inr [[]])))
        = Inr [(''rows'', PList [PDict []]), (''row_count'', PInt 1), (''columns'', PList [])]"
  by (simp add: execute_query_def read_only_def str_def strip_def isspace_def upper_def
      upper_char_def startswith_def execute_fetchall_def answering_def constant_server_def
      keys_def)

text \<open>
  C3, amended: for every accepted query the database answers with rows, the
  envelope holds those rows, \<^verbatim>\<open>row_count\<close> is their number, \<^verbatim>\<open>columns\<close> is the
  list of the first row's keys when there is a row and empty when there is none;
  \<^verbatim>\<open>columns\<close> is empty if and only if the row sequence is empty or its first row
  has no column.
\<close>

theorem execute_query_envelope:
  assumes "read_only U q"
    and "server db (world db) (Composable (SQL q), None) = (Inr rows, w')"
  shows "\<exists>columns.
           fst (execute_query U q db)
             = Inr [(''rows'', PList (map PDict rows)),
                    (''row_count'', PInt (int (length rows))),
                    (''columns'', PList columns)]
           \<and> (rows \<noteq> [] \<longrightarrow> columns = keys (hd rows))
           \<and> (rows = [] \<longrightarrow> columns = [])
           \<and> (columns = [] \<longleftrightarrow> rows = [] \<or> hd rows = [])"
  using assms
  by (cases rows) (simp_all add: execute_query_def execute_fetchall_def keys_def)

text \<open>C3, witness: two rows with the columns \<^verbatim>\<open>id\<close> and \<^verbatim>\<open>name\<close>.\<close>

theorem execute_query_envelope_witness:
  "read_only sample_table (str ''select id, name from users'')
   \<and> fst (execute_query sample_table (str ''select id, name from users'')
           (answering (Inr [[(''id'', PInt 1), (''name'', PStr ''ann'')],
                            [(''id'', PInt 2), (''name'', PNone)]])))
       = Inr [(''rows'', PList [PDict [(''id'', PInt 1), (''name'', PStr ''ann'')],
                                PDict [(''id'', PInt 2), (''name'', PNone)]]),
              (''row_count'', PInt 2),
              (''columns'', PList [PStr ''id'', PStr ''name''])]"
proof -
  let ?rows = "[[(''id'', PInt 1), (''name'', PStr ''ann'')], [(''id'', PInt 2), (''name'', PNone)]]"
  have h: "read_only sample_table (str ''select id, name from users'')"
    by (simp add: read_only_def str_def strip_def isspace_def upper_def upper_char_def
        startswith_def)
  have a: "server (answering (Inr ?rows)) (world (answering (Inr ?rows)))
             (Composable (SQL (str ''select id, name from users'')), None) = (Inr ?rows, ())"
    by (simp add: answering_def constant_server_def)
  from execute_query_envelope [OF h a] h show ?thesis
    by (auto simp: keys_def)
qed

section \<open>Schema introspection\<close>

text \<open>
  C4: for every table name for which the catalog column query returns no row,
  \<^verbatim>\<open>get_table_schema\<close> returns, as a normal result, the not-found shape: an
  \<^verbatim>\<open>error\<close> message, the requested \<^verbatim>\<open>table_name\<close> and an empty \<^verbatim>\<open>columns\<close>
  sequence. The shape is distinguishable: a result with columns has no \<^verbatim>\<open>error\<close>
  key.
\<close>

theorem get_table_schema_not_found:
  "server db (world db) (Str get_table_schema_query, Some [t]) = (Inr columns, w') \<Longrightarrow>
   (columns = [] \<longrightarrow>
      get_table_schema t db
        = (Inr [(''error'', PStr (''Table '' @ [sq] @ t @ [sq] @ '' not found'')),
                (''table_name'', PStr t),
                (''columns'', PList [])],
           db\<lparr>world := w', sent := sent db @ [(Str get_table_schema_query, Some [t])]\<rparr>))
   \<and> (columns \<noteq> [] \<longrightarrow>
      (\<exists>found. fst (get_table_schema t db) = Inr found \<and> map_of found ''error'' = None))"
  by (simp add: get_table_schema_def execute_fetchall_def)

text \<open>C4, witness: a table \<^verbatim>\<open>ghosts\<close> the catalog has no column of.\<close>

theorem get_table_schema_not_found_witness:
  "server (answering (Inr [])) (world (answering (Inr [])))
      (Str get_table_schema_query, Some [''ghosts'']) = (Inr [], ())
   \<and> fst (get_table_schema ''ghosts'' (answering (Inr [])))
       = Inr [(''error'', PStr (''Table '' @ [sq] @ ''ghosts'' @ [sq] @ '' not found'')),
              (''table_name'', PStr ''ghosts''),
              (''columns'', PList [])]"
proof -
  have a: "server (answering (Inr [])) (world (answering (Inr [])))
      (Str get_table_schema_query, Some [''ghosts'']) = (Inr [], ())"
    by (simp add: answering_def constant_server_def)
  from get_table_schema_not_found [OF a] a show ?thesis by simp
qed

text \<open>
  C10: whatever rows the database answers the statement of \<^verbatim>\<open>list_tables\<close> with,
  the tool returns them in the order given with \<^verbatim>\<open>count\<close> their number, and no
  \<^verbatim>\<open>error\<close> key. Against the server of a catalog, which reads the text of the
  statement, and for any catalog: the tool succeeds, the table names it returns are
  in ascending lexicographic order and are the names of the catalog's public
  tables, \<^verbatim>\<open>count\<close> is their number, and with no public table the result is the
  empty sequence with count 0.
\<close>

theorem list_tables_ordered:
  "(server db (world db) (Str list_tables_query, None) = (Inr rows, w') \<longrightarrow>
      fst (list_tables db)
        = Inr [(''tables'', PList (map PDict rows)), (''count'', PInt (int (length rows)))])
   \<and> (server db = catalog_server \<longrightarrow>
        (\<exists>tables.
           list_tables db
             = (Inr [(''tables'', PList tables), (''count'', PInt (int (length tables)))],
                db\<lparr>sent := sent db @ [(Str list_tables_query, None)]\<rparr>)
           \<and> sorted (names_of tables)
           \<and> mset (names_of tables)
               = mset (map tab_name (filter (\<lambda>t. tab_schema t = ''public'') (world db)))
           \<and> length tables = length (filter (\<lambda>t. tab_schema t = ''public'') (world db))))"
  by (auto simp: list_tables_def execute_fetchall_def catalog_server_list_tables
      select_tables_def names_of_table_rows)

text \<open>
  C10, witness: from a catalog listing \<^verbatim>\<open>staff\<close> before \<^verbatim>\<open>projects\<close>, the tool
  returns \<^verbatim>\<open>projects\<close>, then \<^verbatim>\<open>staff\<close>, and count 2; from an empty catalog, the
  empty sequence and count 0.
\<close>

theorem list_tables_ordered_witness:
  "fst (list_tables (catalog_connection example_catalog))
     = Inr [(''tables'',
             PList [PDict [(''table_name'', PStr ''projects''), (''table_type'', PStr ''BASE TABLE'')],
                    PDict [(''table_name'', PStr ''staff''), (''table_type'', PStr ''BASE TABLE'')]]),
            (''count'', PInt 2)]
   \<and> fst (list_tables (catalog_connection [])) = Inr [(''tables'', PList []), (''count'', PInt 0)]"
proof -
  let ?db = "catalog_connection example_catalog"
  let ?none = "catalog_connection []"
  have a: "server ?db (world ?db) (Str list_tables_query, None)
             = (Inr (select_tables example_catalog), example_catalog)"
    by (simp add: catalog_connection_def catalog_server_list_tables)
  have b: "server ?none (world ?none) (Str list_tables_query, None) = (Inr (select_tables []), [])"
    by (simp add: catalog_connection_def catalog_server_list_tables)
  have e: "select_tables [] = []"
    by (simp add: select_tables_def)
  from list_tables_ordered [of ?db "select_tables example_catalog" example_catalog]
    list_tables_ordered [of ?none "select_tables []" "[]"] a b
  show ?thesis
    by (simp add: select_tables_example e)
qed

section \<open>Table statistics\<close>

text \<open>
  C8, as stated, fails: when the row-count query yields no row, \<^verbatim>\<open>row_count\<close>
  falls back to the integer 0, not to the \<^verbatim>\<open>Unknown\<close> sentinel.
\<close>

theorem get_table_stats_row_count_counterexample:
  "fst (execute_fetchone (answering (Inr [])) (Composable (count_query ''gone'')) None) = Inr None
   \<and> fst (get_table_stats ''gone'' (answering (Inr [])))
       = Inr [(''table_name'', PStr ''gone''),
              (''row_count'', PInt 0),
              (''total_size'', PStr ''Unknown''),
              (''table_size'', PStr ''Unknown''),
              (''indexes_size'', PStr ''Unknown'')]
   \<and> PInt 0 \<noteq> PStr ''Unknown''"
  by (simp add: get_table_stats_def execute_fetchone_def execute_fetchall_def answering_def
      constant_server_def item_or_def)

text \<open>
  C8, amended: in \<^verbatim>\<open>get_table_stats\<close>, if the size-inspection query yields no
  row, \<^verbatim>\<open>total_size\<close>, \<^verbatim>\<open>table_size\<close> and \<^verbatim>\<open>indexes_size\<close> are each the string
  \<^verbatim>\<open>Unknown\<close>, and the call returns normally with the row count the first query
  gave; if the row-count query yields no row, \<^verbatim>\<open>row_count\<close> falls back to the
  integer 0.
\<close>

theorem get_table_stats_fallbacks:
  assumes "execute_fetchone db (Composable (count_query t)) None = (Inr count_result, db1)"
    and "execute_fetchone db1 (Composable (SQL size_query)) (Some [t, t, t])
           = (Inr size_result, db2)"
  shows "(size_result = None \<and> item_or count_result ''count'' (PInt 0) = Inr n \<longrightarrow>
            get_table_stats t db
              = (Inr [(''table_name'', PStr t),
                      (''row_count'', n),
                      (''total_size'', PStr ''Unknown''),
                      (''table_size'', PStr ''Unknown''),
                      (''indexes_size'', PStr ''Unknown'')], db2))
         \<and> (count_result = None \<longrightarrow>
               item_or count_result ''count'' (PInt 0) = Inr (PInt 0)
               \<and> (\<forall>stats. fst (get_table_stats t db) = Inr stats
                     \<longrightarrow> map_of stats ''row_count'' = Some (PInt 0)))"
  using assms
  by (auto simp: get_table_stats_def item_or_def split: sum.splits)

text \<open>C8, witness: both queries yield no row for the table \<^verbatim>\<open>gone\<close>.\<close>

theorem get_table_stats_fallbacks_witness:
  "get_table_stats ''gone'' (answering (Inr []))
     = (Inr [(''table_name'', PStr ''gone''),
              (''row_count'', PInt 0),
              (''total_size'', PStr ''Unknown''),
              (''table_size'', PStr ''Unknown''),
              (''indexes_size'', PStr ''Unknown'')],
        (answering (Inr []))
          \<lparr>sent := [(Composable (count_query ''gone''), None),
                    (Composable (SQL size_query), Some [''gone'', ''gone'', ''gone''])]\<rparr>)"
proof -
  let ?db1 = "(answering (Inr []))\<lparr>sent := [(Composable (count_query ''gone''), None)]\<rparr>"
  let ?db2 = "(answering (Inr []))
          \<lparr>sent := [(Composable (count_query ''gone''), None),
                    (Composable (SQL size_query), Some [''gone'', ''gone'', ''gone''])]\<rparr>"
  have a: "execute_fetchone (answering (Inr [])) (Composable (count_query ''gone'')) None
             = (Inr None, ?db1)"
    by (simp add: execute_fetchone_def execute_fetchall_def answering_def constant_server_def)
  have b: "execute_fetchone ?db1 (Composable (SQL size_query)) (Some [''gone'', ''gone'', ''gone''])
             = (Inr None, ?db2)"
    by (simp add: execute_fetchone_def execute_fetchall_def answering_def constant_server_def)
  have c: "item_or None ''count'' (PInt 0) = Inr (PInt 0)"
    by (simp add: item_or_def)
  from get_table_stats_fallbacks [OF a b, of "PInt 0"] c show ?thesis by simp
qed

section \<open>Connection setup\<close>

text \<open>
  C5, as stated, fails: with a \<^verbatim>\<open>DATABASE_URL\<close> that carries no password and no
  \<^verbatim>\<open>DATABASE_PASSWORD\<close>, no password is resolvable by either path, and the setup
  raises no configuration error: it connects to the target.
\<close>

theorem lifespan_url_without_password_counterexample:
  "\<not> password_resolvable [''DATABASE_URL'' \<mapsto> ''postgresql://localhost/appdb'']
   \<and> database_lifespan [''DATABASE_URL'' \<mapsto> ''postgresql://localhost/appdb''] reachable
       = (Inr \<lparr>conn = answering (Inr [])\<rparr>, [''postgresql://localhost/appdb''])"
  by (simp add: password_resolvable_def url_password_def getenv_def getenv_default_def
      database_lifespan_def try_connect_def reachable_def startswith_def)

text \<open>
  C5, amended: if \<^verbatim>\<open>DATABASE_URL\<close> is unset or empty and \<^verbatim>\<open>DATABASE_PASSWORD\<close>
  is unset or empty, connection setup raises the configuration error
  (\<^verbatim>\<open>ValueError\<close>) without attempting any connection, whatever the other fields
  are: the password has no usable default.
\<close>

theorem lifespan_missing_password:
  "getenv environ ''DATABASE_URL'' \<in> {None, Some []} \<Longrightarrow>
   getenv environ ''DATABASE_PASSWORD'' \<in> {None, Some []} \<Longrightarrow>
   database_lifespan environ connect
     = (Inl (ValueError
          ''DATABASE_PASSWORD is required. Set DATABASE_PASSWORD or DATABASE_URL in .env file''),
        [])"
  by (auto simp: database_lifespan_def getenv_def getenv_default_def)

text \<open>C5, witness: a host and an empty password, no connection string.\<close>

theorem lifespan_missing_password_witness:
  "database_lifespan
     [''DATABASE_HOST'' \<mapsto> ''db.internal'', ''DATABASE_PASSWORD'' \<mapsto> []] reachable
     = (Inl (ValueError
          ''DATABASE_PASSWORD is required. Set DATABASE_PASSWORD or DATABASE_URL in .env file''),
        [])"
proof -
  let ?env = "[''DATABASE_HOST'' \<mapsto> ''db.internal'', ''DATABASE_PASSWORD'' \<mapsto> []]"
  have a: "getenv ?env ''DATABASE_URL'' \<in> {None, Some []}"
    by (simp add: getenv_def)
  have b: "getenv ?env ''DATABASE_PASSWORD'' \<in> {None, Some []}"
    by (simp add: getenv_def)
  from lifespan_missing_password [OF a b] show ?thesis .
qed

text \<open>
  C6: whenever \<^verbatim>\<open>DATABASE_URL\<close> is supplied (set and not empty), no
  credential check is made: the setup goes straight to one connection attempt, to
  the string with the decoration replaced; it raises only what that attempt raises
  (or the \<^verbatim>\<open>RuntimeError\<close> for a \<^verbatim>\<open>None\<close> connection), never the configuration
  error of its own, and \<^verbatim>\<open>DATABASE_PASSWORD\<close> has no influence on the outcome.
\<close>

theorem lifespan_url_skips_password_check:
  assumes "getenv environ ''DATABASE_URL'' = Some url" and "url \<noteq> []"
  shows "snd (database_lifespan environ connect)
             = [replace ''postgresql+psycopg://'' ''postgresql://'' url]
         \<and> (case connect (replace ''postgresql+psycopg://'' ''postgresql://'' url) of
              Inl e \<Rightarrow> fst (database_lifespan environ connect) = Inl e
            | Inr None \<Rightarrow>
                fst (database_lifespan environ connect)
                  = Inl (RuntimeError ''Failed to establish database connection'')
            | Inr (Some c) \<Rightarrow> fst (database_lifespan environ connect) = Inr \<lparr>conn = c\<rparr>)
         \<and> database_lifespan (environ(''DATABASE_PASSWORD'' := pw)) connect
             = database_lifespan environ connect"
proof -
  have "getenv (environ(''DATABASE_PASSWORD'' := pw)) ''DATABASE_URL'' = Some url"
    using assms(1) by (simp add: getenv_def)
  from lifespan_supplied [OF this assms(2), of connect]
    lifespan_supplied [OF assms, of connect]
  show ?thesis
    by (simp add: try_connect_def del: replace.simps split: sum.splits option.splits)
qed

text \<open>
  C6, witness: a connection string with a user and no password, and no
  \<^verbatim>\<open>DATABASE_PASSWORD\<close>: the connection is attempted and made.
\<close>

theorem lifespan_url_skips_password_check_witness:
  "database_lifespan [''DATABASE_URL'' \<mapsto> ''postgresql://app@db.internal/appdb''] reachable
     = (Inr \<lparr>conn = answering (Inr [])\<rparr>, [''postgresql://app@db.internal/appdb''])"
proof -
  let ?env = "[''DATABASE_URL'' \<mapsto> ''postgresql://app@db.internal/appdb'']"
  have a: "getenv ?env ''DATABASE_URL'' = Some ''postgresql://app@db.internal/appdb''"
    by (simp add: getenv_def)
  have b: "''postgresql://app@db.internal/appdb'' \<noteq> []"
    by simp
  have c: "replace ''postgresql+psycopg://'' ''postgresql://'' ''postgresql://app@db.internal/appdb''
             = ''postgresql://app@db.internal/appdb''"
    by (simp add: startswith_def)
  from lifespan_url_skips_password_check [OF a b, of reachable None] c show ?thesis
    by (simp add: reachable_def prod_eq_iff)
qed

text \<open>
  C7: the replacement is not tied to the start of the string. A connection string
  that begins with the decoration and carries the same text again in a parameter
  resolves to a target whose parameter is rewritten too, so a component other than
  the scheme is changed.
\<close>

theorem lifespan_replaces_inner_occurrence:
  "database_lifespan
     [''DATABASE_URL'' \<mapsto>
        ''postgresql+psycopg://db.internal/appdb?application_name=postgresql+psycopg://etl'']
     reachable
   = (Inr \<lparr>conn = answering (Inr [])\<rparr>,
      [''postgresql://db.internal/appdb?application_name=postgresql://etl''])"
  by (simp add: database_lifespan_def getenv_def try_connect_def reachable_def startswith_def)

end
